theory Spec2Isabelle
  imports Main
begin

section \<open>JavaScript values, requests and responses\<close>

text \<open>
  The gateway (\<^verbatim>\<open>src/index.js\<close>) is an Express application with four routes.
  Request bodies are parsed JSON or multipart fields, so a field of \<^verbatim>\<open>req.body\<close> is an
  arbitrary JavaScript value; a missing field reads as \<^verbatim>\<open>undefined\<close>. The model
  starts where the body parsers have run: \<^verbatim>\<open>req.body\<close> is an object, \<^verbatim>\<open>req.files?.file\<close>
  is one uploaded file or nothing, and the path parameter \<^verbatim>\<open>:nric\<close> is a string.
\<close>

datatype jsval =
    Undefined
  | Null
  | Bool bool
  | Num int
  | Str string
  | Arr "jsval list"
  | Obj "(string \<times> jsval) list"

text \<open>JavaScript truthiness, as used by \<^verbatim>\<open>!x\<close> and \<^verbatim>\<open>x ? a : b\<close>.\<close>

fun truthy :: "jsval \<Rightarrow> bool" where
  "truthy Undefined = False"
| "truthy Null = False"
| "truthy (Bool b) = b"
| "truthy (Num n) = (n \<noteq> 0)"
| "truthy (Str s) = (s \<noteq> [])"
| "truthy (Arr xs) = True"
| "truthy (Obj kvs) = True"

text \<open>
  A \<^verbatim>\<open>uint256\<close> read from the contract arrives as a BigInt; the variable \<^verbatim>\<open>tokenId\<close>
  of the search route holds \<^verbatim>\<open>null\<close> or such a BigInt. \<^verbatim>\<open>0n\<close> is falsy.
\<close>

fun truthy_bigint :: "nat option \<Rightarrow> bool" where
  "truthy_bigint None = False"
| "truthy_bigint (Some n) = (n \<noteq> 0)"

text \<open>Decimal rendering, \<^verbatim>\<open>toString()\<close> of a non-negative integer.\<close>

definition digit :: "nat \<Rightarrow> char" where
  "digit d = ''0123456789'' ! d"

fun dec :: "nat \<Rightarrow> string" where
  "dec n = (if n < 10 then [digit n] else dec (n div 10) @ [digit (n mod 10)])"

declare dec.simps [simp del]

text \<open>A file of \<^verbatim>\<open>req.files\<close> as express-fileupload presents it.\<close>

record upfile =
  name :: string
  mimetype :: string

record request =
  body_nric :: jsval
  body_wallet :: jsval
  body_metadataCID :: jsval
  files_file :: "upfile option"
  params_nric :: string

record response =
  status :: nat
  body :: jsval

definition json :: "nat \<Rightarrow> (string \<times> jsval) list \<Rightarrow> response" where
  "json code kvs = \<lparr>status = code, body = Obj kvs\<rparr>"

text \<open>Reading a field of a response body; a field that is not there reads as \<^verbatim>\<open>undefined\<close>.\<close>

fun field :: "jsval \<Rightarrow> string \<Rightarrow> jsval" where
  "field (Obj kvs) k = (case map_of kvs k of Some v \<Rightarrow> v | None \<Rightarrow> Undefined)"
| "field v k = Undefined"

section \<open>The outside world\<close>

text \<open>
  Every \<^verbatim>\<open>await\<close> of the source calls an external collaborator: the local file system,
  the Storacha store, or the identity-registry contract through ethers. The answer of each
  call is a parameter of the model: \<open>Inl m\<close> when the call throws an error with message
  \<open>m\<close>, \<open>Inr v\<close> when it yields \<open>v\<close>. Each route performs each call at most once, so one
  answer per call and argument covers every behaviour of the collaborators during one
  request. The environment variables are held after \<^verbatim>\<open>?.trim()\<close>: \<open>None\<close> is an unset
  variable.
\<close>

record env =
  \<comment> \<open>process environment, trimmed\<close>
  IPFS_STORAGE_KEY :: "string option"
  IPFS_STORAGE_PROOF :: "string option"
  IPFS_STORAGE_SPACE :: "string option"
  ETHEREUM_PROVIDER_URL :: "string option"
  WALLET_PRIVATE_KEY :: "string option"
  CONTRACT_ADDRESS :: "string option"
  \<comment> \<open>local machine\<close>
  tmpdir :: string
  now :: nat
  path_join :: "string \<Rightarrow> string \<Rightarrow> string"
  mv :: "upfile \<Rightarrow> string \<Rightarrow> string + unit"
  filesFromPaths :: "string \<Rightarrow> string + string list"
  unlink :: "string \<Rightarrow> string + unit"
  \<comment> \<open>Storacha\<close>
  storacha_connect :: "string \<Rightarrow> string \<Rightarrow> string \<Rightarrow> string + unit"
  uploadFile :: "string \<Rightarrow> string + string"
  \<comment> \<open>ethers and the contract\<close>
  ethers_connect :: "string \<Rightarrow> string \<Rightarrow> string \<Rightarrow> string + unit"
  isAddress :: "jsval \<Rightarrow> bool"
  getAddress :: "string + string"
  nricToWallet :: "jsval \<Rightarrow> string + string"
  walletToNric :: "jsval \<Rightarrow> string + string"
  authorizedRegistrars :: "string \<Rightarrow> string + bool"
  isDeceased :: "jsval \<Rightarrow> string + bool"
  getTokenByNric :: "jsval \<Rightarrow> string + nat"
  records :: "nat \<Rightarrow> string + (string \<times> nat)"
  bindIdentity :: "jsval \<Rightarrow> jsval \<Rightarrow> string + string"
  recordDeath :: "jsval \<Rightarrow> jsval \<Rightarrow> string + string"
  tx_wait :: "string \<Rightarrow> string + nat"

text \<open>
  What a request does to the outside world is the list of calls it makes, in order. The
  answer to a logged call is the one the environment gives for it.
\<close>

datatype event =
    StagingWrite string
  | StoreClientInit
  | StagingLoad string
  | StoreUpload string
  | StagingDelete string
  | ContractInit
  | GetAddress
  | NricToWallet jsval
  | WalletToNric jsval
  | AuthorizedRegistrars string
  | IsDeceased jsval
  | GetTokenByNric jsval
  | Records nat
  | BindIdentity jsval jsval
  | RecordDeath jsval jsval
  | TxWait string

fun is_ledger_write :: "event \<Rightarrow> bool" where
  "is_ledger_write (BindIdentity n w) = True"
| "is_ledger_write (RecordDeath n c) = True"
| "is_ledger_write e = False"

fun is_upload_event :: "event \<Rightarrow> bool" where
  "is_upload_event (StagingWrite p) = True"
| "is_upload_event StoreClientInit = True"
| "is_upload_event (StagingLoad p) = True"
| "is_upload_event (StoreUpload f) = True"
| "is_upload_event (StagingDelete p) = True"
| "is_upload_event e = False"

definition ledger_writes :: "event list \<Rightarrow> event list" where
  "ledger_writes tr = filter is_ledger_write tr"

definition upload_events :: "event list \<Rightarrow> event list" where
  "upload_events tr = filter is_upload_event tr"

text \<open>
  An asynchronous computation either throws (\<open>Inl\<close> the message) or yields a value, and
  has made some calls by then.
\<close>

type_synonym 'a eff = "(string + 'a) \<times> event list"

definition ret :: "'a \<Rightarrow> 'a eff" where
  "ret x = (Inr x, [])"

definition throw :: "string \<Rightarrow> 'a eff" where
  "throw m = (Inl m, [])"

definition await :: "event \<Rightarrow> string + 'a \<Rightarrow> 'a eff" where
  "await e r = (r, [e])"

definition and_then :: "'a eff \<Rightarrow> ('a \<Rightarrow> 'b eff) \<Rightarrow> 'b eff" where
  "and_then m f =
     (case m of
        (Inl e, tr) \<Rightarrow> (Inl e, tr)
      | (Inr x, tr) \<Rightarrow> (case f x of (r, tr') \<Rightarrow> (r, tr @ tr')))"

section \<open>The evidence store\<close>

text \<open>
  \<^verbatim>\<open>initializeStorachaClient\<close>: the three credentials must be set and non-empty; parsing
  them and joining the space is the store library's work and may throw.
\<close>

definition initializeStorachaClient :: "env \<Rightarrow> unit eff" where
  "initializeStorachaClient E =
     await StoreClientInit
       (case (IPFS_STORAGE_KEY E, IPFS_STORAGE_PROOF E, IPFS_STORAGE_SPACE E) of
          (Some key, Some proofBase64, Some spaceDID) \<Rightarrow>
            if key = [] \<or> proofBase64 = [] \<or> spaceDID = []
            then Inl ''Missing one of: IPFS_STORAGE_KEY, IPFS_STORAGE_PROOF, IPFS_STORAGE_SPACE''
            else storacha_connect E key proofBase64 spaceDID
        | _ \<Rightarrow> Inl ''Missing one of: IPFS_STORAGE_KEY, IPFS_STORAGE_PROOF, IPFS_STORAGE_SPACE'')"

definition allowedTypes :: "string list" where
  "allowedTypes = [''application/pdf'', ''image/jpeg'', ''image/png'', ''application/json'']"

definition tempFilePath :: "env \<Rightarrow> upfile \<Rightarrow> string" where
  "tempFilePath E file =
     path_join E (tmpdir E) (''upload-'' @ dec (now E) @ ''-'' @ name file)"

definition uploadFileToIPFS :: "env \<Rightarrow> upfile \<Rightarrow> string eff" where
  "uploadFileToIPFS E file =
     (if mimetype file \<notin> set allowedTypes
      then throw ''Invalid file type. Only PDF, JPEG, PNG, or JSON allowed.''
      else
        and_then (await (StagingWrite (tempFilePath E file)) (mv E file (tempFilePath E file)))
          (\<lambda>_.
        and_then (initializeStorachaClient E)
          (\<lambda>_.
        and_then (await (StagingLoad (tempFilePath E file))
                    (filesFromPaths E (tempFilePath E file)))
          (\<lambda>files.
        case files of
          [] \<Rightarrow> throw ''Failed to load file from temp path''
        | file0 # _ \<Rightarrow>
        and_then (await (StoreUpload file0) (uploadFile E file0))
          (\<lambda>cid.
        and_then (await (StagingDelete (tempFilePath E file)) (unlink E (tempFilePath E file)))
          (\<lambda>_.
        ret cid))))))"

text \<open>The \<^verbatim>\<open>catch\<close> block of the upload, bind and record-death routes.\<close>

definition catch500 :: "response eff \<Rightarrow> response \<times> event list" where
  "catch500 m =
     (case m of
        (Inl msg, tr) \<Rightarrow> (json 500 [(''error'', Str msg)], tr)
      | (Inr r, tr) \<Rightarrow> (r, tr))"

definition post_upload :: "env \<Rightarrow> request \<Rightarrow> response \<times> event list" where
  "post_upload E req =
     catch500
       (case files_file req of
          None \<Rightarrow> ret (json 400 [(''error'', Str ''No file uploaded'')])
        | Some uploadedFile \<Rightarrow>
            and_then (uploadFileToIPFS E uploadedFile)
              (\<lambda>cid. ret (json 200 [(''cid'', Str cid)])))"

section \<open>The ledger\<close>

definition initializeContract :: "env \<Rightarrow> unit eff" where
  "initializeContract E =
     await ContractInit
       (case (ETHEREUM_PROVIDER_URL E, WALLET_PRIVATE_KEY E, CONTRACT_ADDRESS E) of
          (Some providerUrl, Some privateKey, Some contractAddress) \<Rightarrow>
            if providerUrl = [] \<or> privateKey = [] \<or> contractAddress = []
            then Inl ''Missing one of: ETHEREUM_PROVIDER_URL, WALLET_PRIVATE_KEY, CONTRACT_ADDRESS''
            else ethers_connect E providerUrl privateKey contractAddress
        | _ \<Rightarrow> Inl ''Missing one of: ETHEREUM_PROVIDER_URL, WALLET_PRIVATE_KEY, CONTRACT_ADDRESS'')"

text \<open>\<^verbatim>\<open>ethers.ZeroAddress\<close>, the sentinel of an unbound identity.\<close>

definition ZeroAddress :: string where
  "ZeroAddress = ''0x0000000000000000000000000000000000000000''"

section \<open>The identity workflow\<close>

definition post_bind_identity :: "env \<Rightarrow> request \<Rightarrow> response \<times> event list" where
  "post_bind_identity E req =
     catch500
       (let nric = body_nric req; wallet = body_wallet req in
        if \<not> truthy nric \<or> \<not> truthy wallet
        then ret (json 400 [(''error'', Str ''NRIC and wallet address are required'')])
        else if \<not> isAddress E wallet
        then ret (json 400 [(''error'', Str ''Invalid wallet address'')])
        else if wallet = Str ZeroAddress
        then ret (json 400 [(''error'', Str ''Wallet cannot be zero address'')])
        else
        and_then (initializeContract E)
          (\<lambda>_.
        and_then (await (NricToWallet nric) (nricToWallet E nric))
          (\<lambda>existingWallet.
        and_then (await (WalletToNric wallet) (walletToNric E wallet))
          (\<lambda>existingNric.
        if existingWallet \<noteq> ZeroAddress
        then ret (json 400 [(''error'', Str ''NRIC already bound''),
                            (''existingWallet'', Str existingWallet)])
        else if existingNric \<noteq> []
        then ret (json 400 [(''error'', Str ''Wallet already bound''),
                            (''existingNric'', Str existingNric)])
        else
        and_then (await GetAddress (getAddress E))
          (\<lambda>registrarAddress.
        and_then (await (AuthorizedRegistrars registrarAddress)
                    (authorizedRegistrars E registrarAddress))
          (\<lambda>isAuthorized.
        if \<not> isAuthorized
        then ret (json 403 [(''error'', Str ''Not authorized registrar'')])
        else
        and_then (await (BindIdentity nric wallet) (bindIdentity E nric wallet))
          (\<lambda>tx.
        and_then (await (TxWait tx) (tx_wait E tx))
          (\<lambda>blockNumber.
        ret (json 200 [(''message'', Str ''Identity bound successfully''),
                       (''transactionHash'', Str tx),
                       (''blockNumber'', Num (int blockNumber))])))))))))"

text \<open>
  The record-death route from the call of \<^verbatim>\<open>initializeContract\<close> on, once \<^verbatim>\<open>finalCID\<close>
  is settled.
\<close>

definition record_death_write :: "env \<Rightarrow> jsval \<Rightarrow> jsval \<Rightarrow> response eff" where
  "record_death_write E nric finalCID =
        and_then (initializeContract E)
          (\<lambda>_.
        and_then (await GetAddress (getAddress E))
          (\<lambda>registrarAddress.
        and_then (await (AuthorizedRegistrars registrarAddress)
                    (authorizedRegistrars E registrarAddress))
          (\<lambda>isAuthorized.
        if \<not> isAuthorized
        then ret (json 403 [(''error'', Str ''Not authorized registrar'')])
        else
        and_then (await (NricToWallet nric) (nricToWallet E nric))
          (\<lambda>boundWallet.
        if boundWallet = ZeroAddress
        then ret (json 404 [(''error'', Str ''NRIC not registered'')])
        else
        and_then (await (RecordDeath nric finalCID) (recordDeath E nric finalCID))
          (\<lambda>tx.
        and_then (await (TxWait tx) (tx_wait E tx))
          (\<lambda>blockNumber.
        ret (json 200 [(''message'', Str ''Death recorded and SBT minted''),
                       (''metadataCID'', finalCID),
                       (''transactionHash'', Str tx),
                       (''blockNumber'', Num (int blockNumber))])))))))"

definition post_record_death :: "env \<Rightarrow> request \<Rightarrow> response \<times> event list" where
  "post_record_death E req =
     catch500
       (let nric = body_nric req; metadataCID = body_metadataCID req in
        if \<not> truthy nric
        then ret (json 400 [(''error'', Str ''NRIC is required'')])
        else if \<not> truthy metadataCID
        then (case files_file req of
                None \<Rightarrow> ret (json 400 [(''error'', Str ''Either metadataCID or file is required'')])
              | Some uploadedFile \<Rightarrow>
                  and_then (uploadFileToIPFS E uploadedFile)
                    (\<lambda>cid. record_death_write E nric (Str cid)))
        else record_death_write E nric metadataCID)"

text \<open>
  The search route. \<^verbatim>\<open>tokenId\<close> and \<^verbatim>\<open>record\<close> start as \<^verbatim>\<open>null\<close> (\<open>None\<close>) and are
  assigned when the identity is deceased. Reading \<^verbatim>\<open>record.metadataCID\<close> of \<^verbatim>\<open>null\<close>
  would throw a TypeError.
\<close>

definition search_reads ::
  "env \<Rightarrow> jsval \<Rightarrow> bool \<Rightarrow> (nat option \<times> (string \<times> string) option) eff" where
  "search_reads E nric deceased =
     (if deceased
      then
        and_then (await (GetTokenByNric nric) (getTokenByNric E nric))
          (\<lambda>tokenId.
        and_then (await (Records tokenId) (records E tokenId))
          (\<lambda>(metadataCID, timestamp).
        ret (Some tokenId, Some (metadataCID, dec timestamp))))
      else ret (None, None))"

definition search_body :: "env \<Rightarrow> request \<Rightarrow> response eff" where
  "search_body E req =
     (let nric = Str (params_nric req) in
      and_then (initializeContract E)
        (\<lambda>_.
      and_then (await (NricToWallet nric) (nricToWallet E nric))
        (\<lambda>wallet.
      if wallet = ZeroAddress
      then ret (json 404 [(''error'', Str ''NRIC not registered'')])
      else
      and_then (await (IsDeceased nric) (isDeceased E nric))
        (\<lambda>deceased.
      and_then (search_reads E nric deceased)
        (\<lambda>(tokenId, record).
      and_then
        (if deceased
         then (case record of
                 Some (metadataCID, timestamp) \<Rightarrow> ret (Str (''ipfs://'' @ metadataCID))
               | None \<Rightarrow> throw ''Cannot read properties of null (reading 'metadataCID')'')
         else ret Null)
        (\<lambda>tokenURI.
      ret (json 200
            [(''nric'', nric),
             (''wallet'', Str wallet),
             (''isDeceased'', Bool deceased),
             (''tokenId'',
                if truthy_bigint tokenId
                then (case tokenId of Some n \<Rightarrow> Str (dec n) | None \<Rightarrow> Null)
                else Null),
             (''record'',
                case record of
                  Some (metadataCID, timestamp) \<Rightarrow>
                    Obj [(''metadataCID'', Str metadataCID), (''timestamp'', Str timestamp)]
                | None \<Rightarrow> Null),
             (''tokenURI'', tokenURI)])))))))"

text \<open>The \<^verbatim>\<open>catch\<close> block of the search route adds the message as \<^verbatim>\<open>details\<close>.\<close>

definition get_search_by_nric :: "env \<Rightarrow> request \<Rightarrow> response \<times> event list" where
  "get_search_by_nric E req =
     (case search_body E req of
        (Inl msg, tr) \<Rightarrow>
          (json 500 [(''error'', Str ''Failed to search NRIC''), (''details'', Str msg)], tr)
      | (Inr r, tr) \<Rightarrow> (r, tr))"

section \<open>Sample environments and requests\<close>

text \<open>
  A world in which every collaborator answers: the identity \<open>S1234567A\<close> is bound to a
  wallet and deceased with token 7, every other identity is unbound, and the gateway's
  signer is an authorized registrar.

  The sample addresses are written with digits only, so they have no letter case: they
  are the same string as a request field and as the checksummed address the contract
  binding returns, and \<^verbatim>\<open>ethers.isAddress\<close> accepts them. The sample \<open>isAddress\<close>
  accepts \<open>0x\<close> followed by forty digits or lowercase hexadecimal letters, which
  \<^verbatim>\<open>ethers.isAddress\<close> accepts without a checksum test, and nothing else.
\<close>

definition lower_hex_address :: "string \<Rightarrow> bool" where
  "lower_hex_address s =
     (length s = 42 \<and> take 2 s = ''0x'' \<and>
      list_all (\<lambda>c. c \<in> set ''0123456789abcdef'') (drop 2 s))"

definition wallet_A :: string where
  "wallet_A = ''0x1110000000000000000000000000000000000001''"

definition wallet_B :: string where
  "wallet_B = ''0x2220000000000000000000000000000000000002''"

definition registrar :: string where
  "registrar = ''0x9990000000000000000000000000000000000009''"

definition env_ok :: env where
  "env_ok =
     \<lparr> IPFS_STORAGE_KEY = Some ''key'',
       IPFS_STORAGE_PROOF = Some ''proof'',
       IPFS_STORAGE_SPACE = Some ''did:key:space'',
       ETHEREUM_PROVIDER_URL = Some ''http://localhost:8545'',
       WALLET_PRIVATE_KEY = Some ''0x01'',
       CONTRACT_ADDRESS = Some ''0x02'',
       tmpdir = ''/tmp'',
       now = 1700000000000,
       path_join = (\<lambda>a b. a @ ''/'' @ b),
       mv = (\<lambda>f p. Inr ()),
       filesFromPaths = (\<lambda>p. Inr [p]),
       unlink = (\<lambda>p. Inr ()),
       storacha_connect = (\<lambda>k p s. Inr ()),
       uploadFile = (\<lambda>f. Inr ''bafyevidence''),
       ethers_connect = (\<lambda>u k a. Inr ()),
       isAddress = (\<lambda>v. case v of Str s \<Rightarrow> lower_hex_address s | _ \<Rightarrow> False),
       getAddress = Inr registrar,
       nricToWallet = (\<lambda>n. Inr (if n = Str ''S1234567A'' then wallet_A else ZeroAddress)),
       walletToNric = (\<lambda>w. Inr (if w = Str wallet_A then ''S1234567A'' else [])),
       authorizedRegistrars = (\<lambda>a. Inr (a = registrar)),
       isDeceased = (\<lambda>n. Inr (n = Str ''S1234567A'')),
       getTokenByNric = (\<lambda>n. Inr 7),
       records = (\<lambda>t. Inr (''bafydeath'', 1700000000)),
       bindIdentity = (\<lambda>n w. Inr ''0xtxbind''),
       recordDeath = (\<lambda>n c. Inr ''0xtxdeath''),
       tx_wait = (\<lambda>h. Inr 42) \<rparr>"

text \<open>The same world with the registrar's authorization revoked.\<close>

definition env_unauth :: env where
  "env_unauth = env_ok \<lparr> authorizedRegistrars := (\<lambda>a. Inr False) \<rparr>"

text \<open>The same world with the store credentials unset.\<close>

definition env_no_store :: env where
  "env_no_store = env_ok \<lparr> IPFS_STORAGE_KEY := None \<rparr>"

text \<open>The same world where the reverse lookup of a wallet fails on the network.\<close>

definition env_reverse_lookup_down :: env where
  "env_reverse_lookup_down = env_ok \<lparr> walletToNric := (\<lambda>w. Inl ''network error'') \<rparr>"

text \<open>The same world where the death token of every identity is token 0.\<close>

definition env_token0 :: env where
  "env_token0 = env_ok \<lparr> getTokenByNric := (\<lambda>n. Inr 0) \<rparr>"

definition no_request :: request where
  "no_request =
     \<lparr> body_nric = Undefined, body_wallet = Undefined, body_metadataCID = Undefined,
       files_file = None, params_nric = [] \<rparr>"

definition pdf_file :: upfile where
  "pdf_file = \<lparr> name = ''cert.pdf'', mimetype = ''application/pdf'' \<rparr>"

definition txt_file :: upfile where
  "txt_file = \<lparr> name = ''note.txt'', mimetype = ''text/plain'' \<rparr>"

definition bind_req :: request where
  "bind_req = no_request \<lparr> body_nric := Str ''S7654321B'', body_wallet := Str wallet_B \<rparr>"

definition rebind_req :: request where
  "rebind_req = no_request \<lparr> body_nric := Str ''S1234567A'', body_wallet := Str wallet_B \<rparr>"

definition death_cid_req :: request where
  "death_cid_req =
     no_request \<lparr> body_nric := Str ''S1234567A'', body_metadataCID := Str ''bafymeta'' \<rparr>"

definition death_file_req :: request where
  "death_file_req = no_request \<lparr> body_nric := Str ''S1234567A'', files_file := Some pdf_file \<rparr>"

definition death_unbound_req :: request where
  "death_unbound_req =
     no_request \<lparr> body_nric := Str ''S7654321B'', body_metadataCID := Str ''bafymeta'' \<rparr>"

definition death_empty_cid_req :: request where
  "death_empty_cid_req =
     no_request \<lparr> body_nric := Str ''S1234567A'', body_metadataCID := Str [] \<rparr>"

definition search_req :: request where
  "search_req = no_request \<lparr> params_nric := ''S1234567A'' \<rparr>"

definition upload_txt_req :: request where
  "upload_txt_req = no_request \<lparr> files_file := Some txt_file \<rparr>"

section \<open>Trace properties\<close>

text \<open>
  A scan of a trace that fails at a ledger write unless an authorization read accepted by
  \<open>ok\<close> came earlier.
\<close>

fun authorized_before_writes :: "(string \<Rightarrow> bool) \<Rightarrow> event list \<Rightarrow> bool" where
  "authorized_before_writes ok [] = True"
| "authorized_before_writes ok (e # tr) =
     (case e of
        AuthorizedRegistrars a \<Rightarrow> ok a \<or> authorized_before_writes ok tr
      | BindIdentity n w \<Rightarrow> False
      | RecordDeath n c \<Rightarrow> False
      | _ \<Rightarrow> authorized_before_writes ok tr)"

section \<open>Reasoning about computations\<close>

lemma authorized_before_writes_sound:
  "authorized_before_writes ok tr \<Longrightarrow> tr = pre @ e # post \<Longrightarrow> is_ledger_write e \<Longrightarrow>
   \<exists>a. AuthorizedRegistrars a \<in> set pre \<and> ok a"
proof (induction tr arbitrary: pre)
  case Nil
  then show ?case by simp
next
  case (Cons x tr)
  show ?case
  proof (cases pre)
    case Nil
    with Cons.prems show ?thesis by (cases e) auto
  next
    case (Cons y pre')
    with Cons.prems have tr: "tr = pre' @ e # post" and xy: "x = y" by auto
    show ?thesis
    proof (cases "\<exists>a. x = AuthorizedRegistrars a \<and> ok a")
      case True
      then show ?thesis using Cons xy by auto
    next
      case False
      with Cons.prems(1) have "authorized_before_writes ok tr"
        by (cases x) auto
      from Cons.IH[OF this tr Cons.prems(3)] show ?thesis using Cons by auto
    qed
  qed
qed


lemma and_thenE:
  assumes "and_then m f = (r, tr)"
  obtains (fails) e where "m = (Inl e, tr)" "r = Inl e"
        | (goes_on) x t1 t2 where "m = (Inr x, t1)" "f x = (r, t2)" "tr = t1 @ t2"
  using assms by (auto simp: and_then_def split: sum.splits prod.splits)

lemma catch500E:
  assumes "catch500 m = (resp, tr)"
  obtains (caught) msg where "m = (Inl msg, tr)" "resp = json 500 [(''error'', Str msg)]"
        | (sent) "m = (Inr resp, tr)"
  using assms by (auto simp: catch500_def split: sum.splits prod.splits)

lemma ret_eq: "ret x = (r, tr) \<longleftrightarrow> r = Inr x \<and> tr = []"
  by (auto simp: ret_def)
lemma throw_eq: "throw m = (r, tr) \<longleftrightarrow> r = Inl m \<and> tr = []"
  by (auto simp: throw_def)
lemma await_eq: "await e a = (r, tr) \<longleftrightarrow> a = r \<and> tr = [e]"
  by (auto simp: await_def)
lemmas eff_eqs = ret_eq throw_eq await_eq


lemma initializeContract_tr: "initializeContract E = (r, tr) \<Longrightarrow> tr = [ContractInit]"
  by (auto simp: initializeContract_def await_eq)

lemma initializeStorachaClient_tr:
  "initializeStorachaClient E = (r, tr) \<Longrightarrow> tr = [StoreClientInit]"
  by (auto simp: initializeStorachaClient_def await_eq)

lemma upload_only_upload_events:
  "uploadFileToIPFS E f = (r, tr) \<Longrightarrow> list_all is_upload_event tr"
  unfolding uploadFileToIPFS_def
  by (auto split: if_splits list.splits elim!: and_thenE simp: eff_eqs
        dest!: initializeStorachaClient_tr)

lemma upload_success_trace:
  "uploadFileToIPFS E f = (Inr cid, tr) \<Longrightarrow>
   \<exists>file0. tr = [StagingWrite (tempFilePath E f), StoreClientInit,
                  StagingLoad (tempFilePath E f), StoreUpload file0,
                  StagingDelete (tempFilePath E f)]"
  unfolding uploadFileToIPFS_def
  by (auto split: if_splits list.splits elim!: and_thenE simp: eff_eqs
        dest!: initializeStorachaClient_tr)

lemma upload_event_not_write: "is_upload_event e \<Longrightarrow> \<not> is_ledger_write e"
  by (cases e) simp_all

lemma upload_event_not_read:
  "is_upload_event e \<Longrightarrow> e \<noteq> AuthorizedRegistrars a \<and> e \<noteq> NricToWallet n"
  by (cases e) simp_all

lemma upload_trace_no_ledger:
  assumes "list_all is_upload_event tr"
  shows "ledger_writes tr = []" "AuthorizedRegistrars a \<notin> set tr" "NricToWallet n \<notin> set tr"
    "upload_events tr = tr"
  using assms upload_event_not_write upload_event_not_read
  by (auto simp: ledger_writes_def upload_events_def list_all_iff filter_empty_conv)

lemma authorized_before_writes_append:
  "list_all is_upload_event t1 \<Longrightarrow>
   authorized_before_writes ok (t1 @ t2) = authorized_before_writes ok t2"
proof (induction t1)
  case Nil
  then show ?case by simp
next
  case (Cons e t1)
  then show ?case by (cases e) simp_all
qed

lemma post_record_death_cases:
  assumes "post_record_death E req = (resp, tr)"
  obtains
    (no_nric) "\<not> truthy (body_nric req)" "tr = []"
      "resp = json 400 [(''error'', Str ''NRIC is required'')]"
  | (no_evidence) "truthy (body_nric req)" "\<not> truthy (body_metadataCID req)"
      "files_file req = None" "tr = []"
      "resp = json 400 [(''error'', Str ''Either metadataCID or file is required'')]"
  | (upload_failed) f msg where "truthy (body_nric req)" "\<not> truthy (body_metadataCID req)"
      "files_file req = Some f" "uploadFileToIPFS E f = (Inl msg, tr)"
      "resp = json 500 [(''error'', Str msg)]"
  | (uploaded) f cid t1 t2 where "truthy (body_nric req)" "\<not> truthy (body_metadataCID req)"
      "files_file req = Some f" "uploadFileToIPFS E f = (Inr cid, t1)"
      "catch500 (record_death_write E (body_nric req) (Str cid)) = (resp, t2)"
      "tr = t1 @ t2"
  | (supplied) "truthy (body_nric req)" "truthy (body_metadataCID req)"
      "catch500 (record_death_write E (body_nric req) (body_metadataCID req)) = (resp, tr)"
proof (cases "truthy (body_nric req)")
  case False
  with assms no_nric show ?thesis
    by (simp add: post_record_death_def catch500_def ret_def)
next
  case nric: True
  show ?thesis
  proof (cases "truthy (body_metadataCID req)")
    case True
    with assms nric supplied show ?thesis
      by (simp add: post_record_death_def)
  next
    case cid: False
    show ?thesis
    proof (cases "files_file req")
      case None
      with assms nric cid no_evidence show ?thesis
        by (simp add: post_record_death_def catch500_def ret_def)
    next
      case (Some f)
      obtain u t1 where u: "uploadFileToIPFS E f = (u, t1)"
        by (cases "uploadFileToIPFS E f")
      show ?thesis
      proof (cases u)
        case (Inl msg)
        with assms nric cid Some u upload_failed show ?thesis
          by (simp add: post_record_death_def catch500_def and_then_def)
      next
        case (Inr c)
        obtain r t2 where w: "record_death_write E (body_nric req) (Str c) = (r, t2)"
          by (cases "record_death_write E (body_nric req) (Str c)")
        with assms nric cid Some u Inr
        have "catch500 (record_death_write E (body_nric req) (Str c)) = (resp, t2)"
          and "tr = t1 @ t2"
          by (auto simp: post_record_death_def catch500_def and_then_def split: sum.splits)
        with nric cid Some u Inr uploaded show ?thesis by simp
      qed
    qed
  qed
qed

lemma write_guarded:
  "catch500 (record_death_write E nric cid) = (resp, tr) \<Longrightarrow>
   authorized_before_writes
     (\<lambda>a. getAddress E = Inr a \<and> authorizedRegistrars E a = Inr True) tr"
  unfolding record_death_write_def
  by (erule catch500E)
     (auto split: if_splits elim!: and_thenE simp: eff_eqs dest!: initializeContract_tr)

lemma write_refused:
  "catch500 (record_death_write E nric cid) = (resp, tr) \<Longrightarrow>
   AuthorizedRegistrars a \<in> set tr \<Longrightarrow> authorizedRegistrars E a = Inr False \<Longrightarrow>
   resp = json 403 [(''error'', Str ''Not authorized registrar'')] \<and>
   tr = [ContractInit, GetAddress, AuthorizedRegistrars a]"
  unfolding record_death_write_def
  by (erule catch500E)
     (auto split: if_splits elim!: and_thenE simp: eff_eqs dest!: initializeContract_tr)

lemma write_unbound:
  "catch500 (record_death_write E nric cid) = (resp, tr) \<Longrightarrow>
   NricToWallet n \<in> set tr \<Longrightarrow> nricToWallet E n = Inr ZeroAddress \<Longrightarrow>
   resp = json 404 [(''error'', Str ''NRIC not registered'')] \<and> ledger_writes tr = []"
  unfolding record_death_write_def
  by (erule catch500E)
     (auto split: if_splits elim!: and_thenE simp: eff_eqs ledger_writes_def
        dest!: initializeContract_tr)

lemma write_events:
  "catch500 (record_death_write E nric cid) = (resp, tr) \<Longrightarrow>
   upload_events tr = [] \<and> (\<forall>e \<in> set tr. is_ledger_write e \<longrightarrow> e = RecordDeath nric cid)
   \<and> (status resp = 200 \<longrightarrow> RecordDeath nric cid \<in> set tr \<and> field (body resp) ''metadataCID'' = cid)"
  unfolding record_death_write_def
  by (erule catch500E)
     (auto split: if_splits elim!: and_thenE simp: eff_eqs upload_events_def json_def
        dest!: initializeContract_tr)

lemma bind_guarded:
  "post_bind_identity E req = (resp, tr) \<Longrightarrow>
   authorized_before_writes
     (\<lambda>a. getAddress E = Inr a \<and> authorizedRegistrars E a = Inr True) tr"
  unfolding post_bind_identity_def Let_def
  by (erule catch500E)
     (auto split: if_splits elim!: and_thenE simp: eff_eqs dest!: initializeContract_tr)

lemma bind_refused:
  "post_bind_identity E req = (resp, tr) \<Longrightarrow>
   AuthorizedRegistrars a \<in> set tr \<Longrightarrow> authorizedRegistrars E a = Inr False \<Longrightarrow>
   resp = json 403 [(''error'', Str ''Not authorized registrar'')] \<and> ledger_writes tr = []"
  unfolding post_bind_identity_def Let_def
  by (erule catch500E)
     (auto split: if_splits elim!: and_thenE simp: eff_eqs ledger_writes_def
        dest!: initializeContract_tr)

lemma death_guarded:
  assumes "post_record_death E req = (resp, tr)"
  shows "authorized_before_writes
     (\<lambda>a. getAddress E = Inr a \<and> authorizedRegistrars E a = Inr True) tr"
  using assms
proof (cases rule: post_record_death_cases)
  case (upload_failed f msg)
  from upload_only_upload_events[OF upload_failed(4)]
  have "authorized_before_writes
     (\<lambda>a. getAddress E = Inr a \<and> authorizedRegistrars E a = Inr True) (tr @ []) = True"
    by (simp only: authorized_before_writes_append authorized_before_writes.simps)
  then show ?thesis by simp
next
  case (uploaded f cid t1 t2)
  then show ?thesis
    by (simp add: authorized_before_writes_append upload_only_upload_events write_guarded)
qed (simp_all add: write_guarded)

lemma death_refused:
  assumes "post_record_death E req = (resp, tr)"
    and "AuthorizedRegistrars a \<in> set tr" and "authorizedRegistrars E a = Inr False"
  shows "resp = json 403 [(''error'', Str ''Not authorized registrar'')] \<and> ledger_writes tr = []"
  using assms(1)
proof (cases rule: post_record_death_cases)
  case (upload_failed f msg)
  with assms(2) upload_trace_no_ledger(2)[OF upload_only_upload_events] show ?thesis
    by blast
next
  case (uploaded f cid t1 t2)
  note up = upload_trace_no_ledger[OF upload_only_upload_events[OF uploaded(4)]]
  from assms(2) uploaded(6) up(2) have "AuthorizedRegistrars a \<in> set t2" by auto
  from write_refused[OF uploaded(5) this assms(3)] up(1) uploaded(6)
  show ?thesis by (simp add: ledger_writes_def)
next
  case supplied
  from write_refused[OF supplied(3) assms(2,3)] show ?thesis
    by (simp add: ledger_writes_def)
qed (use assms(2) in simp_all)

lemma bind_bound:
  "post_bind_identity E req = (resp, tr) \<Longrightarrow>
   NricToWallet n \<in> set tr \<Longrightarrow> nricToWallet E n = Inr w \<Longrightarrow> w \<noteq> ZeroAddress \<Longrightarrow>
   tr = [ContractInit, NricToWallet (body_nric req), WalletToNric (body_wallet req)]
   \<and> (\<forall>x. walletToNric E (body_wallet req) = Inr x \<longrightarrow>
         resp = json 400 [(''error'', Str ''NRIC already bound''),
                          (''existingWallet'', Str w)])
   \<and> (\<forall>m. walletToNric E (body_wallet req) = Inl m \<longrightarrow>
         resp = json 500 [(''error'', Str m)])"
  unfolding post_bind_identity_def Let_def
  by (erule catch500E)
     (auto split: if_splits elim!: and_thenE simp: eff_eqs dest!: initializeContract_tr)

lemma death_supplied:
  assumes "post_record_death E req = (resp, tr)" and "truthy (body_metadataCID req)"
  shows "upload_events tr = []
    \<and> (\<forall>e \<in> set tr. is_ledger_write e \<longrightarrow>
           e = RecordDeath (body_nric req) (body_metadataCID req))
    \<and> (status resp = 200 \<longrightarrow>
           RecordDeath (body_nric req) (body_metadataCID req) \<in> set tr \<and>
           field (body resp) ''metadataCID'' = body_metadataCID req)"
  using assms(1)
proof (cases rule: post_record_death_cases)
  case supplied
  from write_events[OF supplied(3)] show ?thesis .
qed (use assms(2) in \<open>simp_all add: upload_events_def json_def\<close>)

lemma searchE:
  assumes "get_search_by_nric E req = (resp, tr)"
  obtains (caught) msg where "search_body E req = (Inl msg, tr)"
      "resp = json 500 [(''error'', Str ''Failed to search NRIC''), (''details'', Str msg)]"
  | (sent) "search_body E req = (Inr resp, tr)"
  using assms by (auto simp: get_search_by_nric_def split: sum.splits prod.splits)

lemma search_body_deceased:
  "search_body E req = (Inr resp, tr) \<Longrightarrow> isDeceased E (Str (params_nric req)) = Inr True \<Longrightarrow>
   status resp = 200 \<Longrightarrow>
   \<exists>w t cid ts.
      nricToWallet E (Str (params_nric req)) = Inr w \<and> w \<noteq> ZeroAddress
      \<and> getTokenByNric E (Str (params_nric req)) = Inr t \<and> records E t = Inr (cid, ts)
      \<and> tr = [ContractInit, NricToWallet (Str (params_nric req)),
               IsDeceased (Str (params_nric req)), GetTokenByNric (Str (params_nric req)),
               Records t]
      \<and> field (body resp) ''isDeceased'' = Bool True
      \<and> field (body resp) ''record'' =
           Obj [(''metadataCID'', Str cid), (''timestamp'', Str (dec ts))]
      \<and> field (body resp) ''tokenURI'' = Str (''ipfs://'' @ cid)"
  unfolding search_body_def search_reads_def Let_def
  by (auto split: if_splits option.splits elim!: and_thenE simp: eff_eqs json_def
        dest!: initializeContract_tr)

section \<open>Sample runs\<close>

lemmas run_defs =
  post_bind_identity_def post_record_death_def record_death_write_def post_upload_def
  uploadFileToIPFS_def initializeContract_def initializeStorachaClient_def
  get_search_by_nric_def search_body_def search_reads_def catch500_def
  and_then_def await_def ret_def throw_def Let_def allowedTypes_def
  env_ok_def env_unauth_def env_no_store_def env_reverse_lookup_down_def env_token0_def
  no_request_def pdf_file_def txt_file_def bind_req_def rebind_req_def death_cid_req_def
  death_file_req_def death_unbound_req_def death_empty_cid_req_def search_req_def
  upload_txt_req_def
  wallet_A_def wallet_B_def registrar_def ZeroAddress_def lower_hex_address_def

lemma run_bind_ok:
  "post_bind_identity env_ok bind_req =
     (json 200 [(''message'', Str ''Identity bound successfully''),
                (''transactionHash'', Str ''0xtxbind''), (''blockNumber'', Num 42)],
      [ContractInit, NricToWallet (Str ''S7654321B''), WalletToNric (Str wallet_B),
       GetAddress, AuthorizedRegistrars registrar,
       BindIdentity (Str ''S7654321B'') (Str wallet_B), TxWait ''0xtxbind''])"
  by (simp add: run_defs)

lemma run_death_unauth:
  "post_record_death env_unauth death_cid_req =
     (json 403 [(''error'', Str ''Not authorized registrar'')],
      [ContractInit, GetAddress, AuthorizedRegistrars registrar])"
  by (simp add: run_defs)

lemma run_death_file_unauth:
  "post_record_death env_unauth death_file_req =
     (json 403 [(''error'', Str ''Not authorized registrar'')],
      [StagingWrite (tempFilePath env_unauth pdf_file), StoreClientInit,
       StagingLoad (tempFilePath env_unauth pdf_file),
       StoreUpload (tempFilePath env_unauth pdf_file),
       StagingDelete (tempFilePath env_unauth pdf_file),
       ContractInit, GetAddress, AuthorizedRegistrars registrar])"
  by (simp add: run_defs)

lemma run_death_ok:
  "post_record_death env_ok death_cid_req =
     (json 200 [(''message'', Str ''Death recorded and SBT minted''),
                (''metadataCID'', Str ''bafymeta''),
                (''transactionHash'', Str ''0xtxdeath''), (''blockNumber'', Num 42)],
      [ContractInit, GetAddress, AuthorizedRegistrars registrar,
       NricToWallet (Str ''S1234567A''),
       RecordDeath (Str ''S1234567A'') (Str ''bafymeta''), TxWait ''0xtxdeath''])"
  by (simp add: run_defs)

lemma run_death_unbound:
  "post_record_death env_ok death_unbound_req =
     (json 404 [(''error'', Str ''NRIC not registered'')],
      [ContractInit, GetAddress, AuthorizedRegistrars registrar,
       NricToWallet (Str ''S7654321B'')])"
  by (simp add: run_defs)

lemma run_rebind:
  "post_bind_identity env_ok rebind_req =
     (json 400 [(''error'', Str ''NRIC already bound''), (''existingWallet'', Str wallet_A)],
      [ContractInit, NricToWallet (Str ''S1234567A''), WalletToNric (Str wallet_B)])"
  by (simp add: run_defs)

lemma run_rebind_lookup_down:
  "post_bind_identity env_reverse_lookup_down rebind_req =
     (json 500 [(''error'', Str ''network error'')],
      [ContractInit, NricToWallet (Str ''S1234567A''), WalletToNric (Str wallet_B)])"
  by (simp add: run_defs)

lemma run_search:
  "get_search_by_nric env_ok search_req =
     (json 200 [(''nric'', Str ''S1234567A''), (''wallet'', Str wallet_A),
                (''isDeceased'', Bool True), (''tokenId'', Str (dec 7)),
                (''record'', Obj [(''metadataCID'', Str ''bafydeath''),
                                  (''timestamp'', Str (dec 1700000000))]),
                (''tokenURI'', Str ''ipfs://bafydeath'')],
      [ContractInit, NricToWallet (Str ''S1234567A''), IsDeceased (Str ''S1234567A''),
       GetTokenByNric (Str ''S1234567A''), Records 7])"
  by (simp add: run_defs)

lemma run_search_token0:
  "get_search_by_nric env_token0 search_req =
     (json 200 [(''nric'', Str ''S1234567A''), (''wallet'', Str wallet_A),
                (''isDeceased'', Bool True), (''tokenId'', Null),
                (''record'', Obj [(''metadataCID'', Str ''bafydeath''),
                                  (''timestamp'', Str (dec 1700000000))]),
                (''tokenURI'', Str ''ipfs://bafydeath'')],
      [ContractInit, NricToWallet (Str ''S1234567A''), IsDeceased (Str ''S1234567A''),
       GetTokenByNric (Str ''S1234567A''), Records 0])"
  by (simp add: run_defs)


lemma run_upload_no_store:
  "uploadFileToIPFS env_no_store pdf_file =
     (Inl ''Missing one of: IPFS_STORAGE_KEY, IPFS_STORAGE_PROOF, IPFS_STORAGE_SPACE'',
      [StagingWrite (tempFilePath env_no_store pdf_file), StoreClientInit])"
  by (simp add: run_defs)

lemma run_upload_ok:
  "uploadFileToIPFS env_ok pdf_file =
     (Inr ''bafyevidence'',
      [StagingWrite (tempFilePath env_ok pdf_file), StoreClientInit,
       StagingLoad (tempFilePath env_ok pdf_file), StoreUpload (tempFilePath env_ok pdf_file),
       StagingDelete (tempFilePath env_ok pdf_file)])"
  by (simp add: run_defs)


lemma run_death_empty_cid:
  "post_record_death env_ok death_empty_cid_req =
     (json 400 [(''error'', Str ''Either metadataCID or file is required'')], [])"
  by (simp add: run_defs)

section \<open>Registrar authorization\<close>

text \<open>
  C1. In the bind and record-death routes a ledger write (\<^verbatim>\<open>bindIdentity\<close>,
  \<^verbatim>\<open>recordDeath\<close>) is issued only after the read \<^verbatim>\<open>authorizedRegistrars\<close> for the
  signer's address, made in the same request, has returned true. When that read returns
  false, the response is 403 "Not authorized registrar" and no write is issued.
\<close>

theorem C1_writes_only_after_authorization:
  assumes "post_bind_identity E req = (resp, tr) \<or> post_record_death E req = (resp, tr)"
  shows "(\<forall>pre e post. tr = pre @ e # post \<and> is_ledger_write e \<longrightarrow>
            (\<exists>a. AuthorizedRegistrars a \<in> set pre \<and> getAddress E = Inr a \<and>
                 authorizedRegistrars E a = Inr True))
       \<and> (\<forall>a. AuthorizedRegistrars a \<in> set tr \<and> authorizedRegistrars E a = Inr False \<longrightarrow>
            resp = json 403 [(''error'', Str ''Not authorized registrar'')] \<and>
            ledger_writes tr = [])"
proof (intro conjI allI impI)
  fix pre e post
  assume tr: "tr = pre @ e # post \<and> is_ledger_write e"
  from assms have "authorized_before_writes
     (\<lambda>a. getAddress E = Inr a \<and> authorizedRegistrars E a = Inr True) tr"
    using bind_guarded death_guarded by blast
  from authorized_before_writes_sound[OF this] tr
  show "\<exists>a. AuthorizedRegistrars a \<in> set pre \<and> getAddress E = Inr a \<and>
            authorizedRegistrars E a = Inr True"
    by blast
next
  fix a
  assume "AuthorizedRegistrars a \<in> set tr \<and> authorizedRegistrars E a = Inr False"
  with assms bind_refused death_refused
  show "resp = json 403 [(''error'', Str ''Not authorized registrar'')]" by blast
next
  fix a
  assume "AuthorizedRegistrars a \<in> set tr \<and> authorizedRegistrars E a = Inr False"
  with assms bind_refused death_refused
  show "ledger_writes tr = []" by blast
qed

text \<open>
  Both conjuncts at work: the successful bind in the sample world writes after the
  accepted authorization read, and the record-death request in the world with the
  authorization revoked is refused without a write.
\<close>

theorem C1_witness:
  "(\<exists>a. AuthorizedRegistrars a \<in>
          set [ContractInit, NricToWallet (Str ''S7654321B''), WalletToNric (Str wallet_B),
               GetAddress, AuthorizedRegistrars registrar]
        \<and> getAddress env_ok = Inr a \<and> authorizedRegistrars env_ok a = Inr True)
   \<and> fst (post_record_death env_unauth death_cid_req) =
         json 403 [(''error'', Str ''Not authorized registrar'')]
   \<and> ledger_writes (snd (post_record_death env_unauth death_cid_req)) = []"
proof -
  have w: "is_ledger_write (BindIdentity (Str ''S7654321B'') (Str wallet_B))" by simp
  have u: "authorizedRegistrars env_unauth registrar = Inr False"
    by (simp add: env_unauth_def)
  from C1_writes_only_after_authorization
         [of env_ok bind_req _ _, OF disjI1, OF run_bind_ok, THEN conjunct1, rule_format,
          of "[ContractInit, NricToWallet (Str ''S7654321B''), WalletToNric (Str wallet_B),
               GetAddress, AuthorizedRegistrars registrar]"
             "BindIdentity (Str ''S7654321B'') (Str wallet_B)" "[TxWait ''0xtxbind'']"]
       C1_writes_only_after_authorization
         [of env_unauth death_cid_req _ _, OF disjI2, OF run_death_unauth, THEN conjunct2,
          rule_format, of registrar]
       w u
  show ?thesis by (simp add: run_death_unauth)
qed

text \<open>
  C4 as stated fails: record-death resolves the CID first, so a request with a file and no
  \<^verbatim>\<open>metadataCID\<close> has staged, uploaded and unstaged the file before the authorization
  read is made. In the world with the authorization revoked the response is 403 and the
  trace holds the whole upload.
\<close>

theorem C4_counterexample:
  "getAddress env_unauth = Inr registrar
   \<and> authorizedRegistrars env_unauth registrar = Inr False
   \<and> files_file death_file_req = Some pdf_file
   \<and> body_metadataCID death_file_req = Undefined
   \<and> fst (post_record_death env_unauth death_file_req) =
       json 403 [(''error'', Str ''Not authorized registrar'')]
   \<and> snd (post_record_death env_unauth death_file_req) =
       [StagingWrite (tempFilePath env_unauth pdf_file), StoreClientInit,
        StagingLoad (tempFilePath env_unauth pdf_file),
        StoreUpload (tempFilePath env_unauth pdf_file),
        StagingDelete (tempFilePath env_unauth pdf_file),
        ContractInit, GetAddress, AuthorizedRegistrars registrar]"
  by (simp add: run_death_file_unauth)
     (simp add: env_unauth_def env_ok_def death_file_req_def no_request_def)

text \<open>
  C4, amended. When the authorization read of a record-death request returns false, the
  response is 403 "Not authorized registrar", the read is the last call of the request,
  and no ledger write is issued. With a truthy \<^verbatim>\<open>metadataCID\<close> no evidence upload is
  attempted on that path. Without one, the request carried a file and its upload was
  completed (staged, submitted, unstaged) before the authorization read.
\<close>

theorem C4_unauthorized_after_evidence_is_settled:
  assumes "post_record_death E req = (resp, tr)"
    and "AuthorizedRegistrars a \<in> set tr"
    and "authorizedRegistrars E a = Inr False"
  shows "resp = json 403 [(''error'', Str ''Not authorized registrar'')]
       \<and> ledger_writes tr = []
       \<and> (truthy (body_metadataCID req) \<longrightarrow>
             tr = [ContractInit, GetAddress, AuthorizedRegistrars a])
       \<and> (\<not> truthy (body_metadataCID req) \<longrightarrow>
             (\<exists>f file0. files_file req = Some f \<and>
                tr = [StagingWrite (tempFilePath E f), StoreClientInit,
                      StagingLoad (tempFilePath E f), StoreUpload file0,
                      StagingDelete (tempFilePath E f),
                      ContractInit, GetAddress, AuthorizedRegistrars a]))"
  using assms(1)
proof (cases rule: post_record_death_cases)
  case (upload_failed f msg)
  with assms(2) upload_trace_no_ledger(2)[OF upload_only_upload_events] show ?thesis
    by blast
next
  case (uploaded f cid t1 t2)
  note up = upload_trace_no_ledger[OF upload_only_upload_events[OF uploaded(4)]]
  from assms(2) uploaded(6) up(2) have "AuthorizedRegistrars a \<in> set t2" by auto
  from write_refused[OF uploaded(5) this assms(3)] upload_success_trace[OF uploaded(4)]
    uploaded(2,3,6)
  show ?thesis by (auto simp: ledger_writes_def)
next
  case supplied
  from write_refused[OF supplied(3) assms(2,3)] supplied(2) show ?thesis
    by (simp add: ledger_writes_def)
qed (use assms(2) in simp_all)

theorem C4_witness:
  "fst (post_record_death env_unauth death_cid_req) =
     json 403 [(''error'', Str ''Not authorized registrar'')]
   \<and> snd (post_record_death env_unauth death_cid_req) =
     [ContractInit, GetAddress, AuthorizedRegistrars registrar]
   \<and> ledger_writes (snd (post_record_death env_unauth death_file_req)) = []
   \<and> (\<exists>f file0. files_file death_file_req = Some f \<and>
         snd (post_record_death env_unauth death_file_req) =
           [StagingWrite (tempFilePath env_unauth f), StoreClientInit,
            StagingLoad (tempFilePath env_unauth f), StoreUpload file0,
            StagingDelete (tempFilePath env_unauth f),
            ContractInit, GetAddress, AuthorizedRegistrars registrar])"
proof -
  have u: "authorizedRegistrars env_unauth registrar = Inr False"
    by (simp add: env_unauth_def)
  have r: "AuthorizedRegistrars registrar
             \<in> set [ContractInit, GetAddress, AuthorizedRegistrars registrar]"
    by simp
  have r': "AuthorizedRegistrars registrar
             \<in> set [StagingWrite (tempFilePath env_unauth pdf_file), StoreClientInit,
                    StagingLoad (tempFilePath env_unauth pdf_file),
                    StoreUpload (tempFilePath env_unauth pdf_file),
                    StagingDelete (tempFilePath env_unauth pdf_file),
                    ContractInit, GetAddress, AuthorizedRegistrars registrar]"
    by simp
  have t: "truthy (body_metadataCID death_cid_req)"
    by (simp add: death_cid_req_def no_request_def)
  have t': "\<not> truthy (body_metadataCID death_file_req)"
    by (simp add: death_file_req_def no_request_def)
  from C4_unauthorized_after_evidence_is_settled[OF run_death_unauth r u] t
       C4_unauthorized_after_evidence_is_settled[OF run_death_file_unauth r' u] t'
  show ?thesis by (simp add: run_death_unauth run_death_file_unauth)
qed

section \<open>Binding an identity\<close>

text \<open>
  C2 as stated fails: the bind route issues both lookups, \<^verbatim>\<open>nricToWallet(nric)\<close> and
  \<^verbatim>\<open>walletToNric(wallet)\<close>, before it looks at either answer. When the first returns a
  bound wallet and the second throws, the \<^verbatim>\<open>catch\<close> block answers 500.
\<close>

theorem C2_counterexample:
  "body_wallet rebind_req = Str ''0x2220000000000000000000000000000000000002''
   \<and> isAddress env_reverse_lookup_down (body_wallet rebind_req)
   \<and> body_wallet rebind_req \<noteq> Str ZeroAddress
   \<and> nricToWallet env_reverse_lookup_down (body_nric rebind_req) = Inr wallet_A
   \<and> wallet_A \<noteq> ZeroAddress
   \<and> walletToNric env_reverse_lookup_down (body_wallet rebind_req) = Inl ''network error''
   \<and> NricToWallet (body_nric rebind_req)
       \<in> set (snd (post_bind_identity env_reverse_lookup_down rebind_req))
   \<and> fst (post_bind_identity env_reverse_lookup_down rebind_req) =
       json 500 [(''error'', Str ''network error'')]"
  by (simp add: run_rebind_lookup_down)
     (simp add: env_reverse_lookup_down_def env_ok_def rebind_req_def no_request_def
        wallet_A_def wallet_B_def ZeroAddress_def lower_hex_address_def)

text \<open>
  C2, amended. When the \<^verbatim>\<open>nricToWallet\<close> read of a bind request returns a wallet that is
  not the zero address, no \<^verbatim>\<open>bindIdentity\<close> write is issued (the gateway changes no
  binding). If the \<^verbatim>\<open>walletToNric\<close> read that follows also returns, the response is 400
  "NRIC already bound" with the existing wallet in the payload; if that read throws, the
  response is 500 with its message.
\<close>

theorem C2_already_bound_when_both_reads_return:
  assumes "post_bind_identity E req = (resp, tr)"
    and "NricToWallet n \<in> set tr"
    and "nricToWallet E n = Inr w"
    and "w \<noteq> ZeroAddress"
  shows "ledger_writes tr = []
       \<and> (\<forall>x. walletToNric E (body_wallet req) = Inr x \<longrightarrow>
             resp = json 400 [(''error'', Str ''NRIC already bound''),
                              (''existingWallet'', Str w)])
       \<and> (\<forall>m. walletToNric E (body_wallet req) = Inl m \<longrightarrow>
             resp = json 500 [(''error'', Str m)])"
  using bind_bound[OF assms] by (auto simp: ledger_writes_def)

theorem C2_witness:
  "ledger_writes (snd (post_bind_identity env_ok rebind_req)) = []
   \<and> fst (post_bind_identity env_ok rebind_req) =
       json 400 [(''error'', Str ''NRIC already bound''), (''existingWallet'', Str wallet_A)]
   \<and> ledger_writes (snd (post_bind_identity env_reverse_lookup_down rebind_req)) = []"
proof -
  have r: "NricToWallet (Str ''S1234567A'')
             \<in> set [ContractInit, NricToWallet (Str ''S1234567A''), WalletToNric (Str wallet_B)]"
    by simp
  have b: "nricToWallet env_ok (Str ''S1234567A'') = Inr wallet_A"
    and b': "nricToWallet env_reverse_lookup_down (Str ''S1234567A'') = Inr wallet_A"
    by (simp_all add: env_reverse_lookup_down_def env_ok_def)
  have z: "wallet_A \<noteq> ZeroAddress"
    by (simp add: wallet_A_def ZeroAddress_def)
  have v: "walletToNric env_ok (body_wallet rebind_req) = Inr []"
    by (simp add: env_ok_def rebind_req_def no_request_def wallet_A_def wallet_B_def)
  from C2_already_bound_when_both_reads_return[OF run_rebind r b z] v
       C2_already_bound_when_both_reads_return[OF run_rebind_lookup_down r b' z]
  show ?thesis by (simp add: run_rebind run_rebind_lookup_down)
qed

section \<open>Recording a death\<close>

text \<open>
  C3. When the \<^verbatim>\<open>nricToWallet\<close> read of a record-death request returns the zero address,
  the response is 404 "NRIC not registered" and no ledger write is issued.
\<close>

theorem C3_unbound_nric_not_found:
  assumes "post_record_death E req = (resp, tr)"
    and "NricToWallet n \<in> set tr"
    and "nricToWallet E n = Inr ZeroAddress"
  shows "resp = json 404 [(''error'', Str ''NRIC not registered'')] \<and> ledger_writes tr = []"
  using assms(1)
proof (cases rule: post_record_death_cases)
  case (upload_failed f msg)
  with assms(2) upload_trace_no_ledger(3)[OF upload_only_upload_events] show ?thesis
    by blast
next
  case (uploaded f cid t1 t2)
  note up = upload_trace_no_ledger[OF upload_only_upload_events[OF uploaded(4)]]
  from assms(2) uploaded(6) up(3) have "NricToWallet n \<in> set t2" by auto
  from write_unbound[OF uploaded(5) this assms(3)] up(1) uploaded(6)
  show ?thesis by (simp add: ledger_writes_def)
next
  case supplied
  from write_unbound[OF supplied(3) assms(2,3)] show ?thesis .
qed (use assms(2) in simp_all)

theorem C3_witness:
  "fst (post_record_death env_ok death_unbound_req) =
     json 404 [(''error'', Str ''NRIC not registered'')]
   \<and> ledger_writes (snd (post_record_death env_ok death_unbound_req)) = []"
proof -
  have r: "NricToWallet (Str ''S7654321B'')
             \<in> set [ContractInit, GetAddress, AuthorizedRegistrars registrar,
                    NricToWallet (Str ''S7654321B'')]"
    by simp
  have z: "nricToWallet env_ok (Str ''S7654321B'') = Inr ZeroAddress"
    by (simp add: env_ok_def)
  from C3_unbound_nric_not_found[OF run_death_unbound r z]
  show ?thesis by (simp add: run_death_unbound)
qed

text \<open>
  C10. A record-death request with a truthy \<^verbatim>\<open>metadataCID\<close> makes no call of the upload
  (so no media-type check either: the response and the trace are the same whatever file,
  if any, comes with the request), and the only ledger write it can issue is
  \<^verbatim>\<open>recordDeath(nric, metadataCID)\<close> with the value as supplied; a 200 response has
  issued that write and echoes the value. An empty-string \<^verbatim>\<open>metadataCID\<close> behaves as an
  absent one: without a file the response is 400 "Either metadataCID or file is required".
\<close>

theorem C10_supplied_cid_used_verbatim:
  assumes "post_record_death E req = (resp, tr)"
  shows "(truthy (body_metadataCID req) \<longrightarrow>
            upload_events tr = []
            \<and> (\<forall>e \<in> set tr. is_ledger_write e \<longrightarrow>
                  e = RecordDeath (body_nric req) (body_metadataCID req))
            \<and> (status resp = 200 \<longrightarrow>
                  RecordDeath (body_nric req) (body_metadataCID req) \<in> set tr \<and>
                  field (body resp) ''metadataCID'' = body_metadataCID req)
            \<and> (\<forall>f. post_record_death E (req\<lparr>files_file := f\<rparr>) = (resp, tr)))
       \<and> (body_metadataCID req = Str [] \<longrightarrow>
            post_record_death E (req\<lparr>body_metadataCID := Undefined\<rparr>) = (resp, tr)
            \<and> (truthy (body_nric req) \<and> files_file req = None \<longrightarrow>
                  resp = json 400 [(''error'', Str ''Either metadataCID or file is required'')]
                  \<and> tr = []))"
proof -
  have supplied: "upload_events tr = []
      \<and> (\<forall>e \<in> set tr. is_ledger_write e \<longrightarrow>
            e = RecordDeath (body_nric req) (body_metadataCID req))
      \<and> (status resp = 200 \<longrightarrow>
            RecordDeath (body_nric req) (body_metadataCID req) \<in> set tr \<and>
            field (body resp) ''metadataCID'' = body_metadataCID req)"
    if "truthy (body_metadataCID req)"
    using death_supplied[OF assms that] .
  have any_file: "post_record_death E (req\<lparr>files_file := f\<rparr>) = (resp, tr)"
    if "truthy (body_metadataCID req)" for f
    using assms that by (auto simp: post_record_death_def Let_def)
  have as_absent: "post_record_death E (req\<lparr>body_metadataCID := Undefined\<rparr>) = (resp, tr)"
    if "body_metadataCID req = Str []"
    using assms that by (auto simp: post_record_death_def Let_def)
  have needs_file:
    "resp = json 400 [(''error'', Str ''Either metadataCID or file is required'')] \<and> tr = []"
    if "body_metadataCID req = Str []" and "truthy (body_nric req) \<and> files_file req = None"
    using assms that by (auto simp: post_record_death_def Let_def catch500_def ret_def)
  from supplied any_file as_absent needs_file show ?thesis by blast
qed

theorem C10_witness:
  "RecordDeath (Str ''S1234567A'') (Str ''bafymeta'')
     \<in> set (snd (post_record_death env_ok death_cid_req))
   \<and> upload_events (snd (post_record_death env_ok death_cid_req)) = []
   \<and> field (body (fst (post_record_death env_ok death_cid_req))) ''metadataCID'' =
       Str ''bafymeta''
   \<and> post_record_death env_ok (death_cid_req\<lparr>files_file := Some txt_file\<rparr>) =
       post_record_death env_ok death_cid_req
   \<and> post_record_death env_ok (death_empty_cid_req\<lparr>body_metadataCID := Undefined\<rparr>) =
       (json 400 [(''error'', Str ''Either metadataCID or file is required'')], [])"
proof -
  have t: "truthy (body_metadataCID death_cid_req)"
    and n: "body_nric death_cid_req = Str ''S1234567A''"
    and c: "body_metadataCID death_cid_req = Str ''bafymeta''"
    by (simp_all add: death_cid_req_def no_request_def)
  have e: "body_metadataCID death_empty_cid_req = Str []"
    and m: "truthy (body_nric death_empty_cid_req) \<and> files_file death_empty_cid_req = None"
    by (simp_all add: death_empty_cid_req_def no_request_def)
  from C10_supplied_cid_used_verbatim[OF run_death_ok, THEN conjunct1, rule_format, OF t]
       C10_supplied_cid_used_verbatim[OF run_death_empty_cid, THEN conjunct2, rule_format, OF e]
       n c
  show ?thesis by (simp add: run_death_ok json_def)
qed

section \<open>Uploading evidence\<close>

text \<open>
  C9. A blob whose media type is outside the four allowed ones is rejected by
  \<^verbatim>\<open>uploadFileToIPFS\<close> with the invalid-type error, and the rejection makes no call at
  all: no staging write, no store-client initialisation, no submission to the store.
\<close>

theorem C9_invalid_type_rejected_without_calls:
  assumes "mimetype file \<notin> set allowedTypes"
  shows "uploadFileToIPFS E file =
           (Inl ''Invalid file type. Only PDF, JPEG, PNG, or JSON allowed.'', [])"
  using assms by (simp add: uploadFileToIPFS_def throw_def)

theorem C9_witness:
  "uploadFileToIPFS env_ok txt_file =
     (Inl ''Invalid file type. Only PDF, JPEG, PNG, or JSON allowed.'', [])"
proof -
  have m: "mimetype txt_file \<notin> set allowedTypes"
    by (simp add: txt_file_def allowedTypes_def)
  from C9_invalid_type_rejected_without_calls[OF m] show ?thesis .
qed




text \<open>
  When the upload throws after the file was staged, either no deletion of the staging
  file was attempted, or the deletion itself is what threw.
\<close>

lemma upload_failure_leaves_staging:
  "uploadFileToIPFS E f = (Inl m, tr) \<Longrightarrow> StagingWrite p \<in> set tr \<Longrightarrow>
   mv E f p = Inr () \<Longrightarrow>
   StagingDelete p \<notin> set tr \<or> unlink E p = Inl m"
  unfolding uploadFileToIPFS_def
  by (auto split: if_splits list.splits elim!: and_thenE simp: eff_eqs
        dest!: initializeStorachaClient_tr)

text \<open>
  C5 fails on the code: \<^verbatim>\<open>fs.unlink\<close> is the last step of the success path only. With
  the store credentials unset, the PDF is staged, \<^verbatim>\<open>initializeStorachaClient\<close> throws,
  and the upload ends with the staging file written and never deleted.
\<close>

theorem C5_staging_file_left_behind:
  "uploadFileToIPFS env_no_store pdf_file =
     (Inl ''Missing one of: IPFS_STORAGE_KEY, IPFS_STORAGE_PROOF, IPFS_STORAGE_SPACE'',
      [StagingWrite ''/tmp/upload-1700000000000-cert.pdf'', StoreClientInit])
   \<and> mv env_no_store pdf_file ''/tmp/upload-1700000000000-cert.pdf'' = Inr ()
   \<and> StagingDelete ''/tmp/upload-1700000000000-cert.pdf''
         \<notin> set (snd (uploadFileToIPFS env_no_store pdf_file))"
  by (simp add: run_defs tempFilePath_def dec.simps digit_def)

section \<open>Searching by NRIC\<close>

text \<open>
  C7. When a search returns a result (status 200) for an identity whose \<^verbatim>\<open>isDeceased\<close>
  read is true, the identity is registered, the token and its death record have been
  read, and \<^verbatim>\<open>tokenURI\<close> is exactly \<open>ipfs://\<close> followed by the \<^verbatim>\<open>metadataCID\<close> of that
  record.
\<close>

theorem C7_tokenURI_of_deceased:
  assumes "get_search_by_nric E req = (resp, tr)"
    and "status resp = 200"
    and "isDeceased E (Str (params_nric req)) = Inr True"
  shows "\<exists>w t cid ts.
      nricToWallet E (Str (params_nric req)) = Inr w \<and> w \<noteq> ZeroAddress
      \<and> getTokenByNric E (Str (params_nric req)) = Inr t \<and> records E t = Inr (cid, ts)
      \<and> tr = [ContractInit, NricToWallet (Str (params_nric req)),
               IsDeceased (Str (params_nric req)), GetTokenByNric (Str (params_nric req)),
               Records t]
      \<and> field (body resp) ''isDeceased'' = Bool True
      \<and> field (body resp) ''record'' =
           Obj [(''metadataCID'', Str cid), (''timestamp'', Str (dec ts))]
      \<and> field (body resp) ''tokenURI'' = Str (''ipfs://'' @ cid)"
  using assms(1)
proof (cases rule: searchE)
  case (caught msg)
  with assms(2) show ?thesis by (simp add: json_def)
next
  case sent
  from search_body_deceased[OF sent assms(3,2)] show ?thesis .
qed


theorem C7_witness:
  "getTokenByNric env_ok (Str (params_nric search_req)) = Inr 7
   \<and> records env_ok 7 = Inr (''bafydeath'', 1700000000)
   \<and> status (fst (get_search_by_nric env_ok search_req)) = 200
   \<and> field (body (fst (get_search_by_nric env_ok search_req))) ''tokenURI'' =
       Str ''ipfs://bafydeath''"
proof -
  have s: "status (json 200 [(''nric'', Str ''S1234567A''), (''wallet'', Str wallet_A),
                (''isDeceased'', Bool True), (''tokenId'', Str (dec 7)),
                (''record'', Obj [(''metadataCID'', Str ''bafydeath''),
                                  (''timestamp'', Str (dec 1700000000))]),
                (''tokenURI'', Str ''ipfs://bafydeath'')]) = 200"
    by (simp add: json_def)
  have d: "isDeceased env_ok (Str (params_nric search_req)) = Inr True"
    by (simp add: env_ok_def search_req_def no_request_def)
  have t: "getTokenByNric env_ok (Str (params_nric search_req)) = Inr 7"
    and r: "records env_ok 7 = Inr (''bafydeath'', 1700000000)"
    by (simp_all add: env_ok_def)
  from C7_tokenURI_of_deceased[OF run_search s d] t r
  show ?thesis by (auto simp: run_search json_def)
qed

text \<open>
  C8 fails on the code: \<^verbatim>\<open>tokenId ? tokenId.toString() : null\<close> tests the token for
  truthiness, and the BigInt \<^verbatim>\<open>0n\<close> is falsy. For a deceased identity whose token is 0
  the result has \<^verbatim>\<open>isDeceased\<close> true and \<^verbatim>\<open>tokenId\<close> null.
\<close>

theorem C8_token_zero_reads_as_null:
  "nricToWallet env_token0 (Str (params_nric search_req)) = Inr wallet_A
   \<and> isDeceased env_token0 (Str (params_nric search_req)) = Inr True
   \<and> getTokenByNric env_token0 (Str (params_nric search_req)) = Inr 0
   \<and> status (fst (get_search_by_nric env_token0 search_req)) = 200
   \<and> field (body (fst (get_search_by_nric env_token0 search_req))) ''isDeceased'' = Bool True
   \<and> field (body (fst (get_search_by_nric env_token0 search_req))) ''tokenId'' = Null"
  by (simp add: run_search_token0 json_def)
     (simp add: env_token0_def env_ok_def search_req_def no_request_def)

end
